theory Spec2Isabelle
  imports Main "HOL-Library.AList"
begin

section \<open>Python values, exceptions and the outside world\<close>

text \<open>
  The module \<^verbatim>\<open>reflex/utils/hosting.py\<close> works on decoded JSON documents, on one
  file on disk (\<^verbatim>\<open>constants.Hosting.HOSTING_JSON\<close>) and on a remote control plane.
  A JSON value is the Python object \<^verbatim>\<open>json.load\<close> returns; a decoded object is the
  list of the items of its dict, in insertion order. Numbers are restricted to
  integers. A Python string is the list of the bytes of its UTF-8 encoding, so that
  concatenation, emptiness and the search for a substring are those of lists.
\<close>

datatype json =
    JNull
  | JBool bool
  | JInt int
  | JStr string
  | JArr "json list"
  | JObj "(string \<times> json) list"

text \<open>Python's truth value of a decoded JSON value (\<^verbatim>\<open>if x\<close>, \<^verbatim>\<open>not x\<close>, \<^verbatim>\<open>assert x\<close>).\<close>

fun truthy :: "json \<Rightarrow> bool" where
  "truthy JNull = False"
| "truthy (JBool b) = b"
| "truthy (JInt n) = (n \<noteq> 0)"
| "truthy (JStr s) = (s \<noteq> [])"
| "truthy (JArr xs) = (xs \<noteq> [])"
| "truthy (JObj kvs) = (kvs \<noteq> [])"

text \<open>
  The exceptions the module meets, all of them subclasses of \<^verbatim>\<open>Exception\<close>, and what
  a call can raise: one of them, or \<^verbatim>\<open>SystemExit\<close>, which \<^verbatim>\<open>except Exception\<close>
  does not catch.
\<close>

datatype exc =
    Exception string
  | ValueError string
  | AssertionError string
  | KeyError string
  | AttributeError string
  | TypeError string
  | FileNotFoundError
  | UnsupportedOperation string
  | JSONDecodeError
  | ValidationError string
  | TimeoutException
  | RequestError
  | HTTPStatusError nat
  | ConnectionClosed
  | UnicodeEncodeError
  | MarkupError

datatype raised = Exc exc | SystemExit string

text \<open>
  The class tests of the \<^verbatim>\<open>except\<close> clauses. \<^verbatim>\<open>io.UnsupportedOperation\<close>,
  \<^verbatim>\<open>json.JSONDecodeError\<close>, \<^verbatim>\<open>UnicodeEncodeError\<close> and pydantic's
  \<^verbatim>\<open>ValidationError\<close> are subclasses of \<^verbatim>\<open>ValueError\<close>; rich's \<^verbatim>\<open>MarkupError\<close> is
  not; \<^verbatim>\<open>httpx.TimeoutException\<close> is a \<^verbatim>\<open>httpx.RequestError\<close>
  (the constructor \<open>RequestError\<close> stands for every other one), and both
  \<^verbatim>\<open>httpx.RequestError\<close> and \<^verbatim>\<open>httpx.HTTPStatusError\<close> are \<^verbatim>\<open>httpx.HTTPError\<close>s.
\<close>

fun is_ValueError :: "exc \<Rightarrow> bool" where
  "is_ValueError (ValueError m) = True"
| "is_ValueError (UnsupportedOperation m) = True"
| "is_ValueError JSONDecodeError = True"
| "is_ValueError (ValidationError m) = True"
| "is_ValueError UnicodeEncodeError = True"
| "is_ValueError e = False"

fun is_TimeoutException :: "exc \<Rightarrow> bool" where
  "is_TimeoutException TimeoutException = True"
| "is_TimeoutException e = False"

fun is_RequestError :: "exc \<Rightarrow> bool" where
  "is_RequestError TimeoutException = True"
| "is_RequestError RequestError = True"
| "is_RequestError e = False"

fun is_HTTPError :: "exc \<Rightarrow> bool" where
  "is_HTTPError (HTTPStatusError c) = True"
| "is_HTTPError e = is_RequestError e"

text \<open>
  A text (the content of a file, a frame of a stream), by what the JSON decoder makes
  of it: a JSON document is given by the value it decodes to, any other text
  verbatim. The empty text is not a JSON document.
\<close>

datatype document = NotJson string | Json json

text \<open>
  A request handed to the transport, and what comes back: the transport raises
  (possibly before anything is sent), or a response with a status code arrives. The
  server is the outcome of the n-th request.
\<close>

datatype request = PostValidateMe json | DeleteDeployment string json

datatype outcome = Raises exc | Responds nat

type_synonym server = "nat \<Rightarrow> outcome"

text \<open>
  The world: the content of \<^verbatim>\<open>HOSTING_JSON\<close> (\<open>None\<close> when the file does not
  exist) and the requests handed to the transport so far. Sleeping is not modelled.
\<close>

record world =
  hosting_json :: "document option"
  sent :: "request list"

text \<open>
  The console (\<^verbatim>\<open>reflex.utils.console\<close>, a rich console behind a log level) is
  outside the module and is a parameter. A message is the f-string it is given: the
  text written in the source and the objects interpolated, which the console formats.
  A call returns or raises; rich raises \<^verbatim>\<open>MarkupError\<close> on a message whose text has a
  closing tag that matches no open tag. The calls modelled are those whose message
  interpolates data from outside the module (the stored token, a timestamp, a
  received frame) or an exception that may carry such data; a message made of the
  source's text and of the error texts of the libraries is taken to print.
\<close>

datatype piece = Lit string | Obj json | Exn exc

type_synonym fstring = "piece list"

record console =
  console_debug :: "fstring \<Rightarrow> exc + unit"
  console_print :: "fstring \<Rightarrow> exc + unit"

subsection \<open>Files and dicts\<close>

text \<open>
  \<^verbatim>\<open>open(HOSTING_JSON, mode)\<close> for the three mode strings the module passes:
  \<^verbatim>\<open>"r"\<close> needs the file, \<^verbatim>\<open>"w"\<close> creates or truncates it, and \<^verbatim>\<open>"rw"\<close>
  is refused before the file is touched (it names both reading and writing). The
  handle says what the file was opened for.
\<close>

datatype open_mode = Mode_r | Mode_w | Mode_rw

datatype handle = Reading | Writing

definition py_open :: "open_mode \<Rightarrow> world \<Rightarrow> (exc + handle) \<times> world" where
  "py_open mode w =
     (case mode of
        Mode_r \<Rightarrow>
          (case hosting_json w of
             None \<Rightarrow> (Inl FileNotFoundError, w)
           | Some t \<Rightarrow> (Inr Reading, w))
      | Mode_w \<Rightarrow> (Inr Writing, w\<lparr>hosting_json := Some (NotJson [])\<rparr>)
      | Mode_rw \<Rightarrow>
          (Inl (ValueError ''must have exactly one of create/read/write/append mode''), w))"

text \<open>\<^verbatim>\<open>json.load(config_file)\<close>: reading a handle opened for writing is refused.\<close>

definition json_load :: "handle \<Rightarrow> world \<Rightarrow> exc + json" where
  "json_load h w =
     (case h of
        Writing \<Rightarrow> Inl (UnsupportedOperation ''not readable'')
      | Reading \<Rightarrow>
          (case hosting_json w of
             None \<Rightarrow> Inl FileNotFoundError
           | Some (NotJson s) \<Rightarrow> Inl JSONDecodeError
           | Some (Json v) \<Rightarrow> Inr v))"

text \<open>\<^verbatim>\<open>json.dump(hosting_config, config_file)\<close> on a freshly truncated file.\<close>

definition json_dump :: "json \<Rightarrow> handle \<Rightarrow> world \<Rightarrow> (exc + unit) \<times> world" where
  "json_dump v h w =
     (case h of
        Reading \<Rightarrow> (Inl (UnsupportedOperation ''not writable''), w)
      | Writing \<Rightarrow> (Inr (), w\<lparr>hosting_json := Some (Json v)\<rparr>))"

text \<open>\<^verbatim>\<open>d.get(k, default)\<close>: only a dict has the method.\<close>

fun dict_get :: "json \<Rightarrow> string \<Rightarrow> json \<Rightarrow> exc + json" where
  "dict_get (JObj kvs) k d = Inr (case map_of kvs k of None \<Rightarrow> d | Some v \<Rightarrow> v)"
| "dict_get v k d = Inl (AttributeError ''get'')"

text \<open>\<^verbatim>\<open>d[k]\<close> on a decoded value that is a dict.\<close>

definition dict_item :: "(string \<times> json) list \<Rightarrow> string \<Rightarrow> exc + json" where
  "dict_item kvs k = (case map_of kvs k of None \<Rightarrow> Inl (KeyError k) | Some v \<Rightarrow> Inr v)"

text \<open>\<^verbatim>\<open>del d[k]\<close>.\<close>

fun dict_del :: "json \<Rightarrow> string \<Rightarrow> exc + json" where
  "dict_del (JObj kvs) k =
     (case map_of kvs k of
        None \<Rightarrow> Inl (KeyError k)
      | Some v \<Rightarrow> Inr (JObj (AList.delete k kvs)))"
| "dict_del v k = Inl (TypeError ''object does not support item deletion'')"

section \<open>The credential store\<close>

text \<open>
  \<^verbatim>\<open>get_existing_access_token\<close>, lines 25-47. The body of the \<^verbatim>\<open>try\<close> is
  \<open>read_existing_access_token\<close>; whatever it raises becomes
  \<^verbatim>\<open>Exception("no existing login found")\<close>.
\<close>

definition read_existing_access_token :: "world \<Rightarrow> exc + (json \<times> json)" where
  "read_existing_access_token w =
     (case py_open Mode_r w of
        (Inl e, w1) \<Rightarrow> Inl e
      | (Inr config_file, w1) \<Rightarrow>
          (case json_load config_file w1 of
             Inl e \<Rightarrow> Inl e
           | Inr hosting_config \<Rightarrow>
               (case dict_get hosting_config ''access_token'' (JStr []) of
                  Inl e \<Rightarrow> Inl e
                | Inr access_token \<Rightarrow>
                    if \<not> truthy access_token
                    then Inl (AssertionError ''no access token found or empty token'')
                    else
                      (case dict_get hosting_config ''code'' JNull of
                         Inl e \<Rightarrow> Inl e
                       | Inr code \<Rightarrow> Inr (access_token, code)))))"

definition get_existing_access_token :: "world \<Rightarrow> exc + (json \<times> json)" where
  "get_existing_access_token w =
     (case read_existing_access_token w of
        Inl ex \<Rightarrow> Inl (Exception ''no existing login found'')
      | Inr r \<Rightarrow> Inr r)"

text \<open>The one failure \<^verbatim>\<open>get_existing_access_token\<close> reports.\<close>

definition no_login :: "exc + (json \<times> json)" where
  "no_login = Inl (Exception ''no existing login found'')"

text \<open>
  \<^verbatim>\<open>delete_token_from_config\<close>, lines 83-96. The file is opened with mode
  \<^verbatim>\<open>"w"\<close>; the statements after \<^verbatim>\<open>json.load\<close> are modelled as written.
\<close>

definition delete_token_body :: "world \<Rightarrow> (exc + unit) \<times> world" where
  "delete_token_body w =
     (case py_open Mode_w w of
        (Inl e, w1) \<Rightarrow> (Inl e, w1)
      | (Inr config_file, w1) \<Rightarrow>
          (case json_load config_file w1 of
             Inl e \<Rightarrow> (Inl e, w1)
           | Inr hosting_config \<Rightarrow>
               (case dict_del hosting_config ''access_token'' of
                  Inl e \<Rightarrow> (Inl e, w1)
                | Inr hosting_config' \<Rightarrow> json_dump hosting_config' config_file w1)))"

definition delete_token_from_config :: "world \<Rightarrow> (exc + unit) \<times> world" where
  "delete_token_from_config w =
     (if hosting_json w \<noteq> None then
        (case delete_token_body w of
           (Inl ex, w1) \<Rightarrow> (Inr (), w1)
         | (Inr u, w1) \<Rightarrow> (Inr (), w1))
      else (Inr (), w))"

text \<open>\<^verbatim>\<open>save_token_to_config\<close>, lines 99-118.\<close>

definition save_token_to_config :: "json \<Rightarrow> json \<Rightarrow> world \<Rightarrow> (exc + unit) \<times> world" where
  "save_token_to_config token code w =
     (let hosting_config =
        JObj ((''access_token'', token) # (if truthy code then [(''code'', code)] else []))
      in case py_open Mode_w w of
           (Inl ex, w1) \<Rightarrow> (Inr (), w1)
         | (Inr config_file, w1) \<Rightarrow>
             (case json_dump hosting_config config_file w1 of
                (Inl ex, w2) \<Rightarrow> (Inr (), w2)
              | (Inr u, w2) \<Rightarrow> (Inr (), w2)))"

section \<open>Token validation\<close>

text \<open>
  One call of the transport: the request is appended to those handed to it and the
  outcome of it comes back.
\<close>

definition http_request :: "server \<Rightarrow> request \<Rightarrow> world \<Rightarrow> outcome \<times> world" where
  "http_request srv r w = (srv (length (sent w)), w\<lparr>sent := sent w @ [r]\<rparr>)"

text \<open>\<^verbatim>\<open>response.raise_for_status()\<close>: every status outside 2xx is an error.\<close>

definition raise_for_status :: "nat \<Rightarrow> exc + unit" where
  "raise_for_status status_code =
     (if 200 \<le> status_code \<and> status_code < 300 then Inr ()
      else Inl (HTTPStatusError status_code))"

text \<open>
  \<^verbatim>\<open>validate_token\<close>, lines 50-80. \<open>validate_token_try\<close> is the body of the
  \<^verbatim>\<open>try\<close> after the request; the \<^verbatim>\<open>except\<close> clauses follow in the source's order.
  The handler of \<^verbatim>\<open>ValueError\<close> logs the token (line 76) before it raises.
\<close>

definition validate_token_try :: "outcome \<Rightarrow> exc + unit" where
  "validate_token_try out =
     (case out of
        Raises e \<Rightarrow> Inl e
      | Responds status_code \<Rightarrow>
          if status_code = 403 then Inl (ValueError [])
          else raise_for_status status_code)"

definition validate_token ::
  "console \<Rightarrow> server \<Rightarrow> json \<Rightarrow> world \<Rightarrow> (exc + unit) \<times> world" where
  "validate_token con srv token w =
     (case http_request srv (PostValidateMe token) w of
        (out, w1) \<Rightarrow>
          (case validate_token_try out of
             Inr u \<Rightarrow> (Inr (), w1)
           | Inl e \<Rightarrow>
               if is_RequestError e then (Inl (Exception ''request error''), w1)
               else if is_HTTPError e then (Inl (Exception ''server error''), w1)
               else if is_ValueError e then
                 (case console_debug con [Lit ''Access denied for '', Obj token] of
                    Inl ce \<Rightarrow> (Inl ce, w1)
                  | Inr u \<Rightarrow> (Inl (ValueError ''access denied''), w1))
               else (Inl (Exception ''internal errors''), w1)))"

text \<open>
  \<^verbatim>\<open>authenticated_token\<close>, lines 121-145: the body of the outer \<^verbatim>\<open>try\<close>, the body
  of the inner \<^verbatim>\<open>try\<close> of the handler (which opens the file with mode
  \<^verbatim>\<open>"rw"\<close>), and the function. The handler logs the exception (line 136) before
  its inner \<^verbatim>\<open>try\<close>, so what that call raises leaves the function.
\<close>

definition authenticated_token_try ::
  "console \<Rightarrow> server \<Rightarrow> world \<Rightarrow> (exc + json option) \<times> world" where
  "authenticated_token_try con srv w =
     (case get_existing_access_token w of
        Inl e \<Rightarrow> (Inl e, w)
      | Inr (token, code) \<Rightarrow>
          if \<not> truthy token then (Inr None, w)
          else
            (case validate_token con srv token w of
               (Inl e, w1) \<Rightarrow> (Inl e, w1)
             | (Inr u, w1) \<Rightarrow> (Inr (Some token), w1)))"

definition authenticated_token_cleanup :: "world \<Rightarrow> (exc + unit) \<times> world" where
  "authenticated_token_cleanup w =
     (case py_open Mode_rw w of
        (Inl e, w1) \<Rightarrow> (Inl e, w1)
      | (Inr config_file, w1) \<Rightarrow>
          (case json_load config_file w1 of
             Inl e \<Rightarrow> (Inl e, w1)
           | Inr hosting_config \<Rightarrow>
               (case dict_del hosting_config ''access_token'' of
                  Inl e \<Rightarrow> (Inl e, w1)
                | Inr hosting_config' \<Rightarrow> json_dump hosting_config' config_file w1)))"

definition authenticated_token ::
  "console \<Rightarrow> server \<Rightarrow> world \<Rightarrow> (exc + json option) \<times> world" where
  "authenticated_token con srv w =
     (case authenticated_token_try con srv w of
        (Inr r, w1) \<Rightarrow> (Inr r, w1)
      | (Inl ex, w1) \<Rightarrow>
          (case console_debug con
                  [Lit ''Unable to validate the token from the existing config: '', Exn ex] of
             Inl ce \<Rightarrow> (Inl ce, w1)
           | Inr u \<Rightarrow>
               (case authenticated_token_cleanup w1 of
                  (Inl ex', w2) \<Rightarrow> (Inr None, w2)
                | (Inr u', w2) \<Rightarrow> (Inr None, w2))))"

text \<open>
  \<^verbatim>\<open>validate_token_with_retries\<close>, lines 850-874. The first argument is the number
  of iterations left of \<^verbatim>\<open>range(constants.Hosting.WEB_AUTH_RETRIES)\<close>; the constant is
  not part of the module. An exception raised inside a handler leaves the function;
  the handler of \<^verbatim>\<open>Exception\<close> logs the exception (line 872) before it sleeps.
\<close>

fun validate_token_with_retries ::
  "console \<Rightarrow> nat \<Rightarrow> server \<Rightarrow> json \<Rightarrow> world \<Rightarrow> (raised + bool) \<times> world" where
  "validate_token_with_retries con 0 srv access_token w = (Inr False, w)"
| "validate_token_with_retries con (Suc n) srv access_token w =
     (case validate_token con srv access_token w of
        (Inr u, w1) \<Rightarrow> (Inr True, w1)
      | (Inl e, w1) \<Rightarrow>
          if is_ValueError e then
            (case delete_token_from_config w1 of
               (Inl e', w2) \<Rightarrow> (Inl (Exc e'), w2)
             | (Inr u, w2) \<Rightarrow> (Inl (SystemExit ''Access denied''), w2))
          else
            (case console_debug con [Lit ''Unable to validate token due to: '', Exn e] of
               Inl ce \<Rightarrow> (Inl (Exc ce), w1)
             | Inr u \<Rightarrow> validate_token_with_retries con n srv access_token w1))"

text \<open>\<^verbatim>\<open>delete_deployment\<close>, lines 603-634.\<close>

definition delete_deployment ::
  "console \<Rightarrow> server \<Rightarrow> string \<Rightarrow> world \<Rightarrow> (exc + unit) \<times> world" where
  "delete_deployment con srv key w =
     (case authenticated_token con srv w of
        (Inl e, w1) \<Rightarrow> (Inl e, w1)
      | (Inr None, w1) \<Rightarrow> (Inl (Exception ''not authenticated''), w1)
      | (Inr (Some token), w1) \<Rightarrow>
          if \<not> truthy token then (Inl (Exception ''not authenticated''), w1)
          else if key = [] then (Inl (ValueError ''Valid key is required for the delete.''), w1)
          else
            (case http_request srv (DeleteDeployment key token) w1 of
               (out, w2) \<Rightarrow>
                 (case (case out of Raises e \<Rightarrow> Inl e | Responds c \<Rightarrow> raise_for_status c) of
                    Inr u \<Rightarrow> (Inr (), w2)
                  | Inl e \<Rightarrow>
                      if is_TimeoutException e then (Inl (Exception ''request timeout''), w2)
                      else if is_HTTPError e then (Inl (Exception ''internal errors''), w2)
                      else (Inl (Exception ''internal errors''), w2))))"

text \<open>Worlds and servers to run the module on.\<close>

definition stored_credential :: world where
  "stored_credential =
     \<lparr>hosting_json =
        Some (Json (JObj [(''access_token'', JStr ''fake-token''), (''code'', JStr ''fake-code'')])),
      sent = []\<rparr>"

definition no_credential :: world where
  "no_credential = \<lparr>hosting_json = None, sent = []\<rparr>"

definition accepting :: server where
  "accepting n = Responds 200"

definition forbidding :: server where
  "forbidding n = Responds 403"

text \<open>
  A token with a letter outside ASCII (\<^verbatim>\<open>t\<close>, \<^verbatim>\<open>o\<close> with diaeresis, \<^verbatim>\<open>k\<close>), the
  record that stores it, and a transport that cannot encode the authorization header
  made from it: \<^verbatim>\<open>httpx.post\<close> raises \<^verbatim>\<open>UnicodeEncodeError\<close>.
\<close>

definition accented_token :: string where
  "accented_token = [CHR ''t'', CHR 0xC3, CHR 0xB6, CHR ''k'']"

definition accented_credential :: world where
  "accented_credential =
     \<lparr>hosting_json = Some (Json (JObj [(''access_token'', JStr accented_token)])), sent = []\<rparr>"

definition not_encoding :: server where
  "not_encoding n = Raises UnicodeEncodeError"

text \<open>A stored token that reads as a closing tag of rich's markup.\<close>

definition tag_credential :: world where
  "tag_credential =
     \<lparr>hosting_json = Some (Json (JObj [(''access_token'', JStr ''[/x]'')])), sent = []\<rparr>"

text \<open>
  Two consoles. The silent one stands for a log level above DEBUG and lines without
  markup: every call returns. The other stands for log level DEBUG on messages whose
  only markup is the closing tag \<^verbatim>\<open>[/x]\<close>: a call raises \<^verbatim>\<open>MarkupError\<close> when a
  string interpolated in the message contains that tag, which matches no open tag,
  or when the message interpolates a \<^verbatim>\<open>MarkupError\<close>, whose text quotes the tag.
\<close>

definition silent_console :: console where
  "silent_console = \<lparr>console_debug = (\<lambda>msg. Inr ()), console_print = (\<lambda>msg. Inr ())\<rparr>"

text \<open>\<^verbatim>\<open>p in s\<close> on strings: \<open>p\<close> occurs in \<open>s\<close> as a contiguous run.\<close>

fun str_in :: "string \<Rightarrow> string \<Rightarrow> bool" where
  "str_in p [] = (p = [])"
| "str_in p (c # cs) = (take (length p) (c # cs) = p \<or> str_in p cs)"

fun has_closing_tag :: "piece \<Rightarrow> bool" where
  "has_closing_tag (Obj (JStr s)) = str_in ''[/x]'' s"
| "has_closing_tag (Exn MarkupError) = True"
| "has_closing_tag p = False"

definition render :: "fstring \<Rightarrow> exc + unit" where
  "render msg =
     (if list_ex has_closing_tag msg then Inl MarkupError else Inr ())"

definition markup_console :: console where
  "markup_console = \<lparr>console_debug = render, console_print = render\<rparr>"

section \<open>Response models\<close>

text \<open>
  The pydantic models with a root validator. The keyword arguments of a constructor
  are a record of optional values (\<open>None\<close>: not given, or given as \<^verbatim>\<open>None\<close>); a
  validator declared with \<^verbatim>\<open>pre=True\<close> sees them before the fields are validated, and
  a \<^verbatim>\<open>ValueError\<close> it raises makes the constructor raise \<^verbatim>\<open>ValidationError\<close>. A
  required field that is missing does the same.
\<close>

record DeploymentPrepInfo =
  prep_key :: string
  api_url :: string
  deploy_url :: string

text \<open>\<^verbatim>\<open>DeploymentPrepareResponse\<close>, lines 174-214.\<close>

record prepare_kwargs =
  kw_app_prefix :: "string option"
  kw_reply :: "DeploymentPrepInfo option"
  kw_existing :: "DeploymentPrepInfo list option"
  kw_suggestion :: "DeploymentPrepInfo option"

record DeploymentPrepareResponse =
  app_prefix :: string
  reply :: "DeploymentPrepInfo option"
  existing :: "DeploymentPrepInfo list option"
  suggestion :: "DeploymentPrepInfo option"

definition ensure_at_least_one_deploy_params :: "prepare_kwargs \<Rightarrow> exc + prepare_kwargs" where
  "ensure_at_least_one_deploy_params vals =
     (if kw_reply vals = None
         \<and> (kw_existing vals = None \<or> kw_existing vals = Some [])
         \<and> kw_suggestion vals = None
      then Inl (ValueError
        ''At least one set of params for deploy is required from control plane.'')
      else Inr vals)"

definition DeploymentPrepareResponse_init ::
  "prepare_kwargs \<Rightarrow> exc + DeploymentPrepareResponse" where
  "DeploymentPrepareResponse_init kwargs =
     (case ensure_at_least_one_deploy_params kwargs of
        Inl e \<Rightarrow> Inl (ValidationError ''__root__'')
      | Inr vals \<Rightarrow>
          (case kw_app_prefix vals of
             None \<Rightarrow> Inl (ValidationError ''app_prefix'')
           | Some p \<Rightarrow>
               Inr \<lparr>app_prefix = p, reply = kw_reply vals, existing = kw_existing vals,
                    suggestion = kw_suggestion vals\<rparr>))"

text \<open>How many of the three sets of parameters a response holds.\<close>

definition populated :: "DeploymentPrepareResponse \<Rightarrow> nat" where
  "populated r =
     (if reply r = None then 0 else 1)
     + (if existing r = None \<or> existing r = Some [] then 0 else 1)
     + (if suggestion r = None then 0 else 1)"

definition chatroom :: DeploymentPrepInfo where
  "chatroom =
     \<lparr>prep_key = ''chatroom'', api_url = ''https://api'', deploy_url = ''https://web''\<rparr>"

text \<open>\<^verbatim>\<open>SiteStatus\<close>, lines 637-664.\<close>

record site_kwargs =
  kw_frontend_url :: "string option"
  kw_backend_url :: "string option"
  kw_reachable :: "bool option"
  kw_updated_at :: "string option"

record SiteStatus =
  frontend_url :: "string option"
  backend_url :: "string option"
  reachable :: bool
  updated_at :: "string option"

definition ensure_one_of_urls :: "site_kwargs \<Rightarrow> exc + site_kwargs" where
  "ensure_one_of_urls vals =
     (if kw_frontend_url vals = None \<and> kw_backend_url vals = None
      then Inl (ValueError ''At least one of the URLs is required.'')
      else Inr vals)"

definition SiteStatus_init :: "site_kwargs \<Rightarrow> exc + SiteStatus" where
  "SiteStatus_init kwargs =
     (case ensure_one_of_urls kwargs of
        Inl e \<Rightarrow> Inl (ValidationError ''__root__'')
      | Inr vals \<Rightarrow>
          (case kw_reachable vals of
             None \<Rightarrow> Inl (ValidationError ''reachable'')
           | Some b \<Rightarrow>
               Inr \<lparr>frontend_url = kw_frontend_url vals, backend_url = kw_backend_url vals,
                    reachable = b, updated_at = kw_updated_at vals\<rparr>))"

section \<open>Environment variables\<close>

text \<open>
  \<^verbatim>\<open>env.split("=", maxsplit=1)\<close>: the text before the first separator and the text
  after it, or the whole text alone when there is no separator.
\<close>

definition split_once :: "char \<Rightarrow> string \<Rightarrow> string list" where
  "split_once sep s =
     (if sep \<in> set s
      then [takeWhile (\<lambda>c. c \<noteq> sep) s, tl (dropWhile (\<lambda>c. c \<noteq> sep) s)]
      else [s])"

definition is_letter :: "char \<Rightarrow> bool" where
  "is_letter c = ((65 \<le> (of_char c :: nat) \<and> (of_char c :: nat) \<le> 90)
                  \<or> (97 \<le> (of_char c :: nat) \<and> (of_char c :: nat) \<le> 122))"

definition is_digit :: "char \<Rightarrow> bool" where
  "is_digit c = (48 \<le> (of_char c :: nat) \<and> (of_char c :: nat) \<le> 57)"

text \<open>
  \<^verbatim>\<open>re.match(r"^[a-zA-Z_][a-zA-Z0-9_]*$", s)\<close> finds a match. After the greedy run of
  name characters, \<^verbatim>\<open>$\<close> matches at the end of the string and also just before a
  newline that ends the string.
\<close>

definition re_match_env_name :: "string \<Rightarrow> bool" where
  "re_match_env_name s =
     (case s of
        [] \<Rightarrow> False
      | c # cs \<Rightarrow>
          (is_letter c \<or> c = CHR ''_'')
          \<and> (let rest = dropWhile (\<lambda>x. is_letter x \<or> is_digit x \<or> x = CHR ''_'') cs
             in rest = [] \<or> rest = [CHR 0x0A]))"

text \<open>
  \<^verbatim>\<open>process_envs\<close>, lines 933-956. The dict under construction is the list of its
  items in insertion order; assigning to a key that is present replaces its value in
  place.
\<close>

fun process_envs_loop ::
  "string list \<Rightarrow> (string \<times> string) list \<Rightarrow> raised + (string \<times> string) list" where
  "process_envs_loop [] processed_envs = Inr processed_envs"
| "process_envs_loop (env # envs) processed_envs =
     (let kv = split_once CHR ''='' env in
      if length kv \<noteq> 2
      then Inl (SystemExit ''Invalid env format: should be <key>=<value>.'')
      else if \<not> re_match_env_name (kv ! 0)
      then Inl (SystemExit ''Invalid env name: should start with a letter or underscore, followed by letters, digits, or underscores.'')
      else process_envs_loop envs (AList.update (kv ! 0) (kv ! 1) processed_envs))"

definition process_envs :: "string list \<Rightarrow> raised + (string \<times> string) list" where
  "process_envs envs = process_envs_loop envs []"

text \<open>An entry in the format the error messages of \<^verbatim>\<open>process_envs\<close> ask for.\<close>

definition name_char :: "char \<Rightarrow> bool" where
  "name_char c = (is_letter c \<or> is_digit c \<or> c = CHR ''_'')"

definition valid_env :: "string \<Rightarrow> bool" where
  "valid_env env =
     (CHR ''='' \<in> set env \<and>
      (case takeWhile (\<lambda>c. c \<noteq> CHR ''='') env of
         [] \<Rightarrow> False
       | c # cs \<Rightarrow> (is_letter c \<or> c = CHR ''_'') \<and> list_all name_char cs))"

section \<open>Timestamps\<close>

text \<open>
  The datetime library is outside the module: \<^verbatim>\<open>datetime.fromisoformat\<close>,
  \<^verbatim>\<open>astimezone()\<close> (into the local zone of the machine) and \<^verbatim>\<open>strftime\<close> are
  parameters, each of which may raise.
\<close>

record 'dt datetime_lib =
  fromisoformat :: "string \<Rightarrow> exc + 'dt"
  astimezone :: "'dt \<Rightarrow> exc + 'dt"
  strftime :: "'dt \<Rightarrow> string \<Rightarrow> exc + string"

text \<open>
  \<^verbatim>\<open>convert_to_local_time\<close>, lines 722-736: the body of the \<^verbatim>\<open>try\<close>, and the
  function. The argument is any decoded value; \<^verbatim>\<open>fromisoformat\<close> refuses one that is
  not a string. The handler logs the timestamp and the exception (line 735) before it
  returns, so what that call raises leaves the function.
\<close>

definition convert_to_local_time_try :: "'dt datetime_lib \<Rightarrow> json \<Rightarrow> exc + json" where
  "convert_to_local_time_try lib iso_timestamp =
     (case iso_timestamp of
        JStr s \<Rightarrow>
          (case fromisoformat lib s of
             Inl e \<Rightarrow> Inl e
           | Inr dt \<Rightarrow>
               (case astimezone lib dt of
                  Inl e \<Rightarrow> Inl e
                | Inr local_dt \<Rightarrow>
                    (case strftime lib local_dt ''%Y-%m-%d %H:%M:%S.%f %Z'' of
                       Inl e \<Rightarrow> Inl e
                     | Inr r \<Rightarrow> Inr (JStr r))))
      | _ \<Rightarrow> Inl (TypeError ''fromisoformat: argument must be str''))"

definition unable_to_convert :: "json \<Rightarrow> exc \<Rightarrow> fstring" where
  "unable_to_convert iso_timestamp ex =
     [Lit ''Unable to convert iso timestamp '', Obj iso_timestamp, Lit '' due to '', Exn ex,
      Lit ''.'']"

definition convert_to_local_time ::
  "console \<Rightarrow> 'dt datetime_lib \<Rightarrow> json \<Rightarrow> exc + json" where
  "convert_to_local_time con lib iso_timestamp =
     (case convert_to_local_time_try lib iso_timestamp of
        Inl ex \<Rightarrow>
          (case console_debug con (unable_to_convert iso_timestamp ex) of
             Inl ce \<Rightarrow> Inl ce
           | Inr u \<Rightarrow> Inr iso_timestamp)
      | Inr r \<Rightarrow> Inr r)"

text \<open>
  Two libraries to run it on: one that accepts nothing, and one that knows one instant
  and, as CPython's \<^verbatim>\<open>fromisoformat\<close> does with an ordinal date, refuses every other
  string.
\<close>

definition no_datetime :: "unit datetime_lib" where
  "no_datetime =
     \<lparr>fromisoformat = (\<lambda>s. Inl (ValueError ''Invalid isoformat string'')),
      astimezone = (\<lambda>dt. Inr dt),
      strftime = (\<lambda>dt fmt. Inr fmt)\<rparr>"

definition fixed_datetime :: "string datetime_lib" where
  "fixed_datetime =
     \<lparr>fromisoformat =
        (\<lambda>s. if s = ''2023-10-05T12:00:00+00:00'' then Inr s
             else Inl (ValueError ''Invalid isoformat string'')),
      astimezone = (\<lambda>dt. Inr dt),
      strftime = (\<lambda>dt fmt. Inr ''2023-10-05 12:00:00.000000 UTC'')\<rparr>"

section \<open>Deploy milestones\<close>

text \<open>
  \<^verbatim>\<open>str.lower()\<close> is Python's and is a parameter \<open>lower\<close> of the loop. On ASCII
  text it is \<open>ascii_lower\<close>, which the examples use.
\<close>

definition char_lower :: "char \<Rightarrow> char" where
  "char_lower c =
     (case map_of (zip ''ABCDEFGHIJKLMNOPQRSTUVWXYZ'' ''abcdefghijklmnopqrstuvwxyz'') c of
        Some l \<Rightarrow> l
      | None \<Rightarrow> c)"

definition ascii_lower :: "string \<Rightarrow> string" where
  "ascii_lower s = map char_lower s"

text \<open>\<^verbatim>\<open>sep.join(items)\<close>: every item must be a string.\<close>

fun str_join :: "string \<Rightarrow> json list \<Rightarrow> exc + string" where
  "str_join sep [] = Inr []"
| "str_join sep [JStr s] = Inr s"
| "str_join sep (JStr s # v # vs) =
     (case str_join sep (v # vs) of Inl e \<Rightarrow> Inl e | Inr r \<Rightarrow> Inr (s @ sep @ r))"
| "str_join sep (v # vs) = Inl (TypeError ''sequence item: expected str instance'')"

text \<open>\<^verbatim>\<open>message.lower()\<close> on a decoded value.\<close>

definition str_lower_method :: "(string \<Rightarrow> string) \<Rightarrow> json \<Rightarrow> exc + string" where
  "str_lower_method lower v =
     (case v of JStr s \<Rightarrow> Inr (lower s) | _ \<Rightarrow> Inl (AttributeError ''lower''))"

text \<open>
  What \<^verbatim>\<open>await ws.recv()\<close> gives: it raises (the connection is closed), or a frame
  arrives. \<^verbatim>\<open>json.loads\<close> decodes the frame.
\<close>

datatype recv = RecvRaises exc | Frame document

definition json_loads :: "document \<Rightarrow> exc + json" where
  "json_loads d = (case d of NotJson s \<Rightarrow> Inl JSONDecodeError | Json v \<Rightarrow> Inr v)"

text \<open>
  One iteration of the loop of \<^verbatim>\<open>display_deploy_milestones\<close>, lines 1000-1021, on
  what \<^verbatim>\<open>recv\<close> gave: it raises, or it yields the line printed (if any) and whether
  the function returns here. The frame is logged (line 1001) and the line is printed
  (line 1004) inside the \<^verbatim>\<open>try\<close>, so what these calls raise ends the loop as any
  other exception does. \<open>end_messages\<close> is
  \<^verbatim>\<open>constants.Hosting.END_OF_DEPLOYMENT_MESSAGES\<close>, which is not part of the module.
\<close>

definition milestone_frame ::
  "console \<Rightarrow> 'dt datetime_lib \<Rightarrow> (string \<Rightarrow> string) \<Rightarrow> string list \<Rightarrow> recv
   \<Rightarrow> exc + (string option \<times> bool)" where
  "milestone_frame con lib lower end_messages r =
     (case r of
        RecvRaises e \<Rightarrow> Inl e
      | Frame d \<Rightarrow>
          (case json_loads d of
             Inl e \<Rightarrow> Inl e
           | Inr row_json \<Rightarrow>
               (case console_debug con [Lit ''Server responded with: '', Obj row_json] of
                  Inl e \<Rightarrow> Inl e
                | Inr u \<Rightarrow>
                    (case row_json of
                       JObj kvs \<Rightarrow>
                         if kvs = [] then Inr (None, False)
                         else
                           (case dict_item kvs ''timestamp'' of
                              Inl e \<Rightarrow> Inl e
                            | Inr ts \<Rightarrow>
                                (case convert_to_local_time con lib ts of
                                   Inl e \<Rightarrow> Inl e
                                 | Inr local_ts \<Rightarrow>
                                     (case dict_item kvs ''message'' of
                                        Inl e \<Rightarrow> Inl e
                                      | Inr message \<Rightarrow>
                                          (case str_join '' | '' [local_ts, message] of
                                             Inl e \<Rightarrow> Inl e
                                           | Inr line \<Rightarrow>
                                               (case console_print con [Obj (JStr line)] of
                                                  Inl e \<Rightarrow> Inl e
                                                | Inr u' \<Rightarrow>
                                                    (case str_lower_method lower message of
                                                       Inl e \<Rightarrow> Inl e
                                                     | Inr lowered \<Rightarrow>
                                                         Inr (Some line,
                                                           list_ex (\<lambda>msg. str_in msg lowered)
                                                             end_messages)))))))
                     | _ \<Rightarrow> Inr (None, False)))))"

text \<open>
  The loop, lines 999-1021, over the frames \<open>ws 0\<close>, \<open>ws 1\<close>, ...: the iterations left
  of \<^verbatim>\<open>range(constants.Hosting.DEPLOYMENT_EVENT_MESSAGES_RETRIES)\<close>, the number of
  calls of \<^verbatim>\<open>recv\<close> made and the lines printed so far. It yields why it stopped, the
  calls of \<^verbatim>\<open>recv\<close> made and the lines printed. An exception ends the loop: the
  \<^verbatim>\<open>except\<close> clause of line 1022 is outside it. Every call of \<^verbatim>\<open>recv\<close> returns or
  raises; one that waits for ever is not modelled.
\<close>

datatype stop = EndOfDeployment | BudgetExhausted | Aborted exc

fun milestone_loop ::
  "console \<Rightarrow> 'dt datetime_lib \<Rightarrow> (string \<Rightarrow> string) \<Rightarrow> string list \<Rightarrow> (nat \<Rightarrow> recv)
   \<Rightarrow> nat \<Rightarrow> nat \<Rightarrow> string list \<Rightarrow> stop \<times> nat \<times> string list" where
  "milestone_loop con lib lower end_messages ws 0 i out = (BudgetExhausted, i, out)"
| "milestone_loop con lib lower end_messages ws (Suc n) i out =
     (case milestone_frame con lib lower end_messages (ws i) of
        Inl e \<Rightarrow> (Aborted e, Suc i, out)
      | Inr (None, ended) \<Rightarrow> milestone_loop con lib lower end_messages ws n (Suc i) out
      | Inr (Some line, ended) \<Rightarrow>
          if ended then (EndOfDeployment, Suc i, out @ [line])
          else milestone_loop con lib lower end_messages ws n (Suc i) (out @ [line]))"

text \<open>
  The frames by what they carry. An event is a frame that decodes to an object with a
  string \<^verbatim>\<open>timestamp\<close> and a string \<^verbatim>\<open>message\<close>. A frame has an end message when
  it is an event and one of the configured phrases occurs in its message in lower
  case, which is the test of line 1012-1015.
\<close>

definition event_message :: "recv \<Rightarrow> string option" where
  "event_message r =
     (case r of
        Frame (Json (JObj kvs)) \<Rightarrow>
          (case (map_of kvs ''timestamp'', map_of kvs ''message'') of
             (Some (JStr ts), Some (JStr msg)) \<Rightarrow> Some msg
           | _ \<Rightarrow> None)
      | _ \<Rightarrow> None)"

definition has_end_message :: "(string \<Rightarrow> string) \<Rightarrow> string list \<Rightarrow> recv \<Rightarrow> bool" where
  "has_end_message lower end_messages r =
     (case event_message r of
        Some msg \<Rightarrow> list_ex (\<lambda>p. str_in p (lower msg)) end_messages
      | None \<Rightarrow> False)"

text \<open>
  A frame is handled when the iteration on it raises nothing. A calm frame is handled
  and has no end message.
\<close>

definition handled ::
  "console \<Rightarrow> 'dt datetime_lib \<Rightarrow> (string \<Rightarrow> string) \<Rightarrow> string list \<Rightarrow> recv \<Rightarrow> bool" where
  "handled con lib lower end_messages r =
     (case milestone_frame con lib lower end_messages r of Inl e \<Rightarrow> False | Inr x \<Rightarrow> True)"

definition calm ::
  "console \<Rightarrow> 'dt datetime_lib \<Rightarrow> (string \<Rightarrow> string) \<Rightarrow> string list \<Rightarrow> recv \<Rightarrow> bool" where
  "calm con lib lower end_messages r =
     (handled con lib lower end_messages r \<and> \<not> has_end_message lower end_messages r)"

text \<open>Streams to run the loop on.\<close>

definition event :: "string \<Rightarrow> string \<Rightarrow> recv" where
  "event ts msg = Frame (Json (JObj [(''timestamp'', JStr ts), (''message'', JStr msg)]))"

definition building_then_done :: "nat \<Rightarrow> recv" where
  "building_then_done n =
     (if n = 0 then Frame (Json JNull)
      else if n = 1 then event ''t1'' ''Building''
      else if n = 2 then event ''t2'' ''Deploy SUCCESS!''
      else RecvRaises ConnectionClosed)"

definition still_building :: "nat \<Rightarrow> recv" where
  "still_building n = (if even n then event ''t'' ''Building'' else Frame (Json (JObj [])))"

definition building_then_closed :: "nat \<Rightarrow> recv" where
  "building_then_closed n =
     (if n = 0 then event ''t1'' ''Building'' else RecvRaises ConnectionClosed)"

definition done_then_idle :: "nat \<Rightarrow> recv" where
  "done_then_idle n =
     (if n = 0 then event ''t1'' ''Deploy Success'' else Frame (Json (JObj [])))"

section \<open>Properties of the credential store\<close>

lemma read_existing_access_token_absent:
  "hosting_json w = None \<Longrightarrow> read_existing_access_token w = Inl FileNotFoundError"
  by (simp add: read_existing_access_token_def py_open_def)

lemma read_existing_access_token_malformed:
  "hosting_json w = Some (NotJson s) \<Longrightarrow> read_existing_access_token w = Inl JSONDecodeError"
  by (simp add: read_existing_access_token_def py_open_def json_load_def)

lemma read_existing_access_token_Json:
  "hosting_json w = Some (Json v) \<Longrightarrow>
   read_existing_access_token w =
     (case dict_get v ''access_token'' (JStr []) of
        Inl e \<Rightarrow> Inl e
      | Inr access_token \<Rightarrow>
          if \<not> truthy access_token
          then Inl (AssertionError ''no access token found or empty token'')
          else (case dict_get v ''code'' JNull of
                  Inl e \<Rightarrow> Inl e
                | Inr code \<Rightarrow> Inr (access_token, code)))"
  by (simp add: read_existing_access_token_def py_open_def json_load_def)

text \<open>
  C9. Loading the persisted credential fails with the one exception
  \<^verbatim>\<open>Exception("no existing login found")\<close> when the file is absent, when its text is
  not a JSON document, when the decoded object has no \<^verbatim>\<open>access_token\<close> field and
  when that field is empty; and no failure of the load is reported in any other
  way, so a caller cannot tell the cases apart.
\<close>

theorem get_existing_access_token_no_login:
  "(hosting_json w = None \<longrightarrow> get_existing_access_token w = no_login) \<and>
   (hosting_json w = Some (NotJson s) \<longrightarrow> get_existing_access_token w = no_login) \<and>
   (hosting_json w = Some (Json (JObj kvs)) \<and> map_of kvs ''access_token'' = None
      \<longrightarrow> get_existing_access_token w = no_login) \<and>
   (hosting_json w = Some (Json (JObj kvs)) \<and> map_of kvs ''access_token'' = Some v \<and>
      \<not> truthy v \<longrightarrow> get_existing_access_token w = no_login) \<and>
   (\<forall>e. get_existing_access_token w = Inl e \<longrightarrow> Inl e = no_login)"
proof (intro conjI impI allI)
  assume "hosting_json w = None"
  then show "get_existing_access_token w = no_login"
    by (simp add: get_existing_access_token_def no_login_def read_existing_access_token_absent)
next
  assume "hosting_json w = Some (NotJson s)"
  then show "get_existing_access_token w = no_login"
    by (simp add: get_existing_access_token_def no_login_def
        read_existing_access_token_malformed)
next
  assume "hosting_json w = Some (Json (JObj kvs)) \<and> map_of kvs ''access_token'' = None"
  then show "get_existing_access_token w = no_login"
    by (simp add: get_existing_access_token_def no_login_def read_existing_access_token_Json)
next
  assume "hosting_json w = Some (Json (JObj kvs)) \<and>
    map_of kvs ''access_token'' = Some v \<and> \<not> truthy v"
  then show "get_existing_access_token w = no_login"
    by (simp add: get_existing_access_token_def no_login_def read_existing_access_token_Json)
next
  fix e
  assume "get_existing_access_token w = Inl e"
  then show "Inl e = no_login"
    by (simp add: get_existing_access_token_def no_login_def split: sum.splits)
qed

theorem get_existing_access_token_no_login_witness:
  "get_existing_access_token no_credential = no_login \<and>
   get_existing_access_token \<lparr>hosting_json = Some (NotJson ''{''), sent = []\<rparr> = no_login \<and>
   get_existing_access_token
     \<lparr>hosting_json = Some (Json (JObj [(''code'', JStr ''fake-code'')])), sent = []\<rparr> = no_login \<and>
   get_existing_access_token
     \<lparr>hosting_json = Some (Json (JObj [(''access_token'', JStr [])])), sent = []\<rparr> = no_login \<and>
   get_existing_access_token stored_credential = Inr (JStr ''fake-token'', JStr ''fake-code'')"
proof -
  have "get_existing_access_token stored_credential =
      Inr (JStr ''fake-token'', JStr ''fake-code'')"
    by (simp add: get_existing_access_token_def read_existing_access_token_Json
        stored_credential_def)
  then show ?thesis
    using get_existing_access_token_no_login [of no_credential]
      get_existing_access_token_no_login
        [of "\<lparr>hosting_json = Some (NotJson ''{''), sent = []\<rparr>" "''{''"]
      get_existing_access_token_no_login
        [of "\<lparr>hosting_json = Some (Json (JObj [(''code'', JStr ''fake-code'')])), sent = []\<rparr>"
          _ "[(''code'', JStr ''fake-code'')]"]
      get_existing_access_token_no_login
        [of "\<lparr>hosting_json = Some (Json (JObj [(''access_token'', JStr [])])), sent = []\<rparr>"
          _ "[(''access_token'', JStr [])]" "JStr []"]
    by (simp add: no_credential_def)
qed

lemma delete_token_from_config_eq:
  "delete_token_from_config w =
     (Inr (), if hosting_json w = None then w else w\<lparr>hosting_json := Some (NotJson [])\<rparr>)"
  by (simp add: delete_token_from_config_def delete_token_body_def py_open_def json_load_def)

text \<open>
  C2. The claim asks that deletion removes the access token only and keeps the
  invitation code. On the stored record with both fields, the function returns
  normally (the part of the claim that holds) and leaves the file empty: opening
  with mode \<^verbatim>\<open>"w"\<close> truncates it, \<^verbatim>\<open>json.load\<close> on the write-only handle raises,
  and the handler swallows that. Afterwards no record can be loaded, so the
  invitation code is gone with the token.
\<close>

theorem delete_token_from_config_truncates:
  "delete_token_from_config stored_credential =
     (Inr (), stored_credential\<lparr>hosting_json := Some (NotJson [])\<rparr>) \<and>
   json_load Reading (snd (delete_token_from_config stored_credential)) = Inl JSONDecodeError"
  by (simp add: delete_token_from_config_eq stored_credential_def json_load_def)

section \<open>Properties of token validation\<close>

lemma authenticated_token_cleanup_eq:
  "authenticated_token_cleanup w =
     (Inl (ValueError ''must have exactly one of create/read/write/append mode''), w)"
  by (simp add: authenticated_token_cleanup_def py_open_def)

lemma snd_validate_token:
  "snd (validate_token con srv token w) = w\<lparr>sent := sent w @ [PostValidateMe token]\<rparr>"
  by (simp add: validate_token_def http_request_def split: sum.splits)

lemma validate_token_collapse:
  "validate_token con srv token w =
     (fst (validate_token con srv token w), w\<lparr>sent := sent w @ [PostValidateMe token]\<rparr>)"
  by (metis prod.collapse snd_validate_token)

lemma get_existing_access_token_truthy:
  "get_existing_access_token w = Inr (token, code) \<Longrightarrow> truthy token"
  by (auto simp add: get_existing_access_token_def read_existing_access_token_def
      split: sum.splits prod.splits if_splits)

text \<open>
  What \<^verbatim>\<open>authenticated_token\<close> does, case by case. The clean-up of the handler never
  gets past \<^verbatim>\<open>open\<close>, so all that happens to the world is the one validation
  request; the result is the token, \<^verbatim>\<open>None\<close>, or what the console raised when the
  handler logged the exception.
\<close>

definition unable_to_validate :: "exc \<Rightarrow> fstring" where
  "unable_to_validate ex =
     [Lit ''Unable to validate the token from the existing config: '', Exn ex]"

lemma authenticated_token_handler:
  "authenticated_token_try con srv w = (Inl ex, w1) \<Longrightarrow>
   authenticated_token con srv w =
     (case console_debug con (unable_to_validate ex) of
        Inl ce \<Rightarrow> Inl ce
      | Inr u \<Rightarrow> Inr None, w1)"
  by (simp add: authenticated_token_def authenticated_token_cleanup_eq unable_to_validate_def
      split: sum.splits)

lemma authenticated_token_eq:
  "authenticated_token con srv w =
     (case get_existing_access_token w of
        Inl e \<Rightarrow>
          (case console_debug con (unable_to_validate e) of
             Inl ce \<Rightarrow> Inl ce
           | Inr u \<Rightarrow> Inr None, w)
      | Inr (token, code) \<Rightarrow>
          (case fst (validate_token con srv token w) of
             Inl e \<Rightarrow>
               (case console_debug con (unable_to_validate e) of
                  Inl ce \<Rightarrow> Inl ce
                | Inr u \<Rightarrow> Inr None)
           | Inr u \<Rightarrow> Inr (Some token),
           w\<lparr>sent := sent w @ [PostValidateMe token]\<rparr>))"
proof (cases "get_existing_access_token w")
  case (Inl e)
  then have "authenticated_token_try con srv w = (Inl e, w)"
    by (simp add: authenticated_token_try_def)
  then show ?thesis
    using Inl by (simp add: authenticated_token_handler)
next
  case (Inr r)
  obtain token code where r: "r = (token, code)"
    by (cases r)
  have t: "truthy token"
    using Inr r by (simp add: get_existing_access_token_truthy)
  let ?w1 = "w\<lparr>sent := sent w @ [PostValidateMe token]\<rparr>"
  show ?thesis
  proof (cases "fst (validate_token con srv token w)")
    case (Inl e)
    then have "validate_token con srv token w = (Inl e, ?w1)"
      using validate_token_collapse [of con srv token w] by simp
    then have "authenticated_token_try con srv w = (Inl e, ?w1)"
      using \<open>get_existing_access_token w = Inr r\<close> r t
      by (simp add: authenticated_token_try_def)
    then show ?thesis
      using \<open>get_existing_access_token w = Inr r\<close> r Inl
      by (simp add: authenticated_token_handler)
  next
    case (Inr u)
    then have "validate_token con srv token w = (Inr u, ?w1)"
      using validate_token_collapse [of con srv token w] by simp
    then show ?thesis
      using \<open>get_existing_access_token w = Inr r\<close> r t Inr
      by (simp add: authenticated_token_def authenticated_token_try_def)
  qed
qed

lemma authenticated_token_silent:
  "fst (authenticated_token silent_console srv w) =
     Inr (case get_existing_access_token w of
            Inl e \<Rightarrow> None
          | Inr (token, code) \<Rightarrow>
              (case fst (validate_token silent_console srv token w) of
                 Inl e \<Rightarrow> None
               | Inr u \<Rightarrow> Some token))"
  by (simp add: authenticated_token_eq silent_console_def split: sum.splits prod.splits)

lemma authenticated_token_keeps_file:
  "hosting_json (snd (authenticated_token con srv w)) = hosting_json w"
  by (simp add: authenticated_token_eq split: sum.splits prod.splits)

text \<open>
  C1. The claim asks that the stored credential is deleted only when the server
  explicitly rejects the token. Here the token has a letter outside ASCII and the
  transport cannot encode the authorization header: no response with status 403
  ever arrives, yet \<^verbatim>\<open>validate_token\<close> reports the \<^verbatim>\<open>UnicodeEncodeError\<close>, a
  \<^verbatim>\<open>ValueError\<close>, as access denied, and \<^verbatim>\<open>validate_token_with_retries\<close> empties the
  file and exits at the first attempt.
\<close>

theorem credential_deleted_without_rejection:
  "fst (validate_token silent_console not_encoding (JStr accented_token) accented_credential)
     = Inl (ValueError ''access denied'') \<and>
   fst (validate_token_with_retries silent_console 3 not_encoding (JStr accented_token)
          accented_credential) = Inl (SystemExit ''Access denied'') \<and>
   hosting_json (snd (validate_token_with_retries silent_console 3 not_encoding
          (JStr accented_token) accented_credential)) = Some (NotJson [])"
  by (simp add: numeral_3_eq_3 validate_token_def http_request_def validate_token_try_def
      not_encoding_def silent_console_def delete_token_from_config_eq accented_credential_def)

text \<open>
  C10. The claim asks that \<^verbatim>\<open>authenticated_token\<close> never lets an exception through.
  Here the stored token reads as a closing tag, the server answers 403 and the console
  is at log level DEBUG: logging the token (line 76) raises \<^verbatim>\<open>MarkupError\<close> in the
  handler of \<^verbatim>\<open>validate_token\<close>, logging that exception (line 136) raises again in
  the handler of \<^verbatim>\<open>authenticated_token\<close>, outside its inner \<^verbatim>\<open>try\<close>, and the
  exception leaves the function where the claim has it return \<^verbatim>\<open>None\<close>.
\<close>

theorem authenticated_token_raises_markup_error:
  "authenticated_token markup_console forbidding tag_credential =
     (Inl MarkupError,
      tag_credential\<lparr>sent := [PostValidateMe (JStr ''[/x]'')]\<rparr>)"
  by (simp add: authenticated_token_eq get_existing_access_token_def
      read_existing_access_token_def py_open_def json_load_def validate_token_def
      http_request_def validate_token_try_def forbidding_def markup_console_def render_def
      unable_to_validate_def tag_credential_def)

text \<open>
  C3, as stated, fails: with a stored credential the call with an empty key sends the
  validation request before it raises \<^verbatim>\<open>ValueError\<close>, and without a credential it
  raises \<^verbatim>\<open>Exception("not authenticated")\<close> instead.
\<close>

theorem delete_deployment_empty_key_round_trip:
  "delete_deployment silent_console accepting [] stored_credential =
     (Inl (ValueError ''Valid key is required for the delete.''),
      stored_credential\<lparr>sent := [PostValidateMe (JStr ''fake-token'')]\<rparr>) \<and>
   sent stored_credential = [] \<and>
   delete_deployment silent_console accepting [] no_credential =
     (Inl (Exception ''not authenticated''), no_credential)"
  by (simp add: delete_deployment_def authenticated_token_eq get_existing_access_token_def
      read_existing_access_token_def py_open_def json_load_def validate_token_def
      http_request_def validate_token_try_def raise_for_status_def accepting_def
      silent_console_def stored_credential_def no_credential_def)

text \<open>
  C3, amended. A call of \<^verbatim>\<open>delete_deployment\<close> with an empty key never sends the
  DELETE request: it does what \<^verbatim>\<open>authenticated_token\<close> does (at most the one validation
  request) and then fails, with \<^verbatim>\<open>ValueError\<close> when a token came back, with
  \<^verbatim>\<open>Exception("not authenticated")\<close> when \<^verbatim>\<open>None\<close> came back, and with the exception
  of \<^verbatim>\<open>authenticated_token\<close> when that call raised.
\<close>

theorem delete_deployment_empty_key:
  "delete_deployment con srv [] w =
     (case fst (authenticated_token con srv w) of
        Inl e \<Rightarrow> Inl e
      | Inr None \<Rightarrow> Inl (Exception ''not authenticated'')
      | Inr (Some token) \<Rightarrow> Inl (ValueError ''Valid key is required for the delete.''),
      snd (authenticated_token con srv w)) \<and>
   (sent (snd (delete_deployment con srv [] w)) = sent w \<or>
    (\<exists>token. sent (snd (delete_deployment con srv [] w)) = sent w @ [PostValidateMe token]))"
  by (auto simp add: delete_deployment_def authenticated_token_eq
      get_existing_access_token_truthy split: sum.splits prod.splits option.splits)

section \<open>Properties of the response models\<close>

text \<open>
  C4, as stated, fails: a response with a reply and a suggestion constructs, and two
  of its three sets of parameters are populated, not exactly one.
\<close>

theorem prepare_response_two_populated:
  "DeploymentPrepareResponse_init
     \<lparr>kw_app_prefix = Some ''p'', kw_reply = Some chatroom, kw_existing = None,
      kw_suggestion = Some chatroom\<rparr>
     = Inr \<lparr>app_prefix = ''p'', reply = Some chatroom, existing = None,
            suggestion = Some chatroom\<rparr> \<and>
   populated \<lparr>app_prefix = ''p'', reply = Some chatroom, existing = None,
            suggestion = Some chatroom\<rparr> = 2"
  by (simp add: DeploymentPrepareResponse_init_def ensure_at_least_one_deploy_params_def
      populated_def)

text \<open>
  C4, amended. Every \<^verbatim>\<open>DeploymentPrepareResponse\<close> that constructs has at least one
  of reply, existing (as a non-empty list) and suggestion populated; with all three
  empty or absent the constructor raises \<^verbatim>\<open>ValidationError\<close>, and nothing else
  happens.
\<close>

theorem prepare_response_at_least_one:
  "(DeploymentPrepareResponse_init kwargs = Inr r \<longrightarrow> 1 \<le> populated r) \<and>
   (kw_reply kwargs = None \<and> (kw_existing kwargs = None \<or> kw_existing kwargs = Some []) \<and>
      kw_suggestion kwargs = None
      \<longrightarrow> DeploymentPrepareResponse_init kwargs = Inl (ValidationError ''__root__''))"
  by (auto simp add: DeploymentPrepareResponse_init_def ensure_at_least_one_deploy_params_def
      populated_def split: if_splits option.splits)

theorem prepare_response_at_least_one_witness:
  "DeploymentPrepareResponse_init
     \<lparr>kw_app_prefix = Some ''p'', kw_reply = None, kw_existing = Some [chatroom],
      kw_suggestion = None\<rparr>
     = Inr \<lparr>app_prefix = ''p'', reply = None, existing = Some [chatroom],
            suggestion = None\<rparr> \<and>
   1 \<le> populated \<lparr>app_prefix = ''p'', reply = None, existing = Some [chatroom],
            suggestion = None\<rparr> \<and>
   DeploymentPrepareResponse_init
     \<lparr>kw_app_prefix = Some ''p'', kw_reply = None, kw_existing = Some [],
      kw_suggestion = None\<rparr> = Inl (ValidationError ''__root__'')"
  using prepare_response_at_least_one
      [of "\<lparr>kw_app_prefix = Some ''p'', kw_reply = None, kw_existing = Some [chatroom],
             kw_suggestion = None\<rparr>"
          "\<lparr>app_prefix = ''p'', reply = None, existing = Some [chatroom],
             suggestion = None\<rparr>"]
    prepare_response_at_least_one
      [of "\<lparr>kw_app_prefix = Some ''p'', kw_reply = None, kw_existing = Some [],
             kw_suggestion = None\<rparr>"]
  by (simp add: DeploymentPrepareResponse_init_def ensure_at_least_one_deploy_params_def)

text \<open>
  C8. Every \<^verbatim>\<open>SiteStatus\<close> that constructs has its frontend URL or its backend URL;
  with neither, the constructor raises \<^verbatim>\<open>ValidationError\<close>.
\<close>

theorem site_status_has_url:
  "(SiteStatus_init kwargs = Inr s \<longrightarrow> frontend_url s \<noteq> None \<or> backend_url s \<noteq> None) \<and>
   (kw_frontend_url kwargs = None \<and> kw_backend_url kwargs = None
      \<longrightarrow> SiteStatus_init kwargs = Inl (ValidationError ''__root__''))"
  by (auto simp add: SiteStatus_init_def ensure_one_of_urls_def split: if_splits option.splits)

theorem site_status_has_url_witness:
  "SiteStatus_init \<lparr>kw_frontend_url = Some ''https://web'', kw_backend_url = None,
       kw_reachable = Some True, kw_updated_at = None\<rparr>
     = Inr \<lparr>frontend_url = Some ''https://web'', backend_url = None, reachable = True,
            updated_at = None\<rparr> \<and>
   SiteStatus_init \<lparr>kw_frontend_url = None, kw_backend_url = None,
       kw_reachable = Some True, kw_updated_at = None\<rparr> = Inl (ValidationError ''__root__'')"
  using site_status_has_url
      [of "\<lparr>kw_frontend_url = Some ''https://web'', kw_backend_url = None,
             kw_reachable = Some True, kw_updated_at = None\<rparr>"
          "\<lparr>frontend_url = Some ''https://web'', backend_url = None, reachable = True,
             updated_at = None\<rparr>"]
    site_status_has_url
      [of "\<lparr>kw_frontend_url = None, kw_backend_url = None,
             kw_reachable = Some True, kw_updated_at = None\<rparr>"]
  by (simp add: SiteStatus_init_def ensure_one_of_urls_def)

section \<open>Properties of the environment variables\<close>

lemma process_envs_example:
  "process_envs [''k1=v1'', ''k2=v2''] = Inr [(''k1'', ''v1''), (''k2'', ''v2'')]"
  by (simp add: process_envs_def split_once_def re_match_env_name_def is_letter_def
      is_digit_def)

lemma process_envs_bad_examples:
  "process_envs [''bad''] = Inl (SystemExit ''Invalid env format: should be <key>=<value>.'')"
  "\<exists>m. process_envs [''1x=v''] = Inl (SystemExit m)"
  "process_envs [''k=''] = Inr [(''k'', [])]"
  by (simp_all add: process_envs_def split_once_def re_match_env_name_def is_letter_def
      is_digit_def)

lemma process_envs_loop_rejects:
  "env \<in> set envs \<Longrightarrow>
   CHR ''='' \<notin> set env \<or> \<not> re_match_env_name (takeWhile (\<lambda>c. c \<noteq> CHR ''='') env) \<Longrightarrow>
   \<exists>m. process_envs_loop envs processed_envs = Inl (SystemExit m)"
proof (induction envs arbitrary: processed_envs)
  case Nil
  then show ?case by simp
next
  case (Cons a envs)
  show ?case
  proof (cases "env = a")
    case True
    with Cons.prems(2) show ?thesis
      by (auto simp add: split_once_def Let_def)
  next
    case False
    with Cons.prems have "env \<in> set envs" by simp
    then have "\<exists>m. process_envs_loop envs acc = Inl (SystemExit m)" for acc
      using Cons.IH Cons.prems(2) by blast
    then show ?thesis
      by (simp add: Let_def)
  qed
qed

lemma valid_env_re_match:
  "valid_env env \<Longrightarrow> re_match_env_name (takeWhile (\<lambda>c. c \<noteq> CHR ''='') env)"
proof -
  assume v: "valid_env env"
  then obtain c cs where k: "takeWhile (\<lambda>c. c \<noteq> CHR ''='') env = c # cs"
    "is_letter c \<or> c = CHR ''_''" "list_all name_char cs"
    by (auto simp add: valid_env_def split: list.splits)
  from k(3) have "dropWhile (\<lambda>x. is_letter x \<or> is_digit x \<or> x = CHR ''_'') cs = []"
    by (simp add: list_all_iff name_char_def)
  with k show ?thesis
    by (simp add: re_match_env_name_def)
qed

lemma process_envs_loop_accepts:
  "\<forall>env\<in>set envs. valid_env env \<Longrightarrow> \<exists>r. process_envs_loop envs processed_envs = Inr r"
proof (induction envs arbitrary: processed_envs)
  case Nil
  then show ?case by simp
next
  case (Cons a envs)
  then have a: "CHR ''='' \<in> set a" "re_match_env_name (takeWhile (\<lambda>c. c \<noteq> CHR ''='') a)"
    by (simp_all add: valid_env_re_match) (simp add: valid_env_def)
  have "\<exists>r. process_envs_loop envs acc = Inr r" for acc
    using Cons by simp
  with a show ?case
    by (simp add: split_once_def Let_def)
qed

text \<open>
  C5. The claim asks that every entry whose key does not match
  \<^verbatim>\<open>[A-Za-z_][A-Za-z0-9_]*\<close> makes the operation fail. The key of the entry below is
  \<^verbatim>\<open>k\<close> followed by a newline, which is not of that form (and not what the error
  message of the function asks for); \<^verbatim>\<open>re.match\<close> with \<^verbatim>\<open>$\<close> accepts it, and the
  entry is processed.
\<close>

theorem process_envs_accepts_trailing_newline:
  "process_envs [[CHR ''k'', CHR 0x0A, CHR ''='', CHR ''v'']] = Inr [([CHR ''k'', CHR 0x0A], ''v'')] \<and>
   \<not> valid_env [CHR ''k'', CHR 0x0A, CHR ''='', CHR ''v'']"
  by (simp add: process_envs_def split_once_def re_match_env_name_def is_letter_def
      is_digit_def valid_env_def name_char_def)

section \<open>Properties of the timestamps\<close>

lemma convert_to_local_time_JStr:
  "convert_to_local_time con lib (JStr s) = Inr v \<Longrightarrow> \<exists>r. v = JStr r"
  by (auto simp add: convert_to_local_time_def convert_to_local_time_try_def
      split: sum.splits)

lemma convert_to_local_time_other:
  "convert_to_local_time con lib ts = Inr (JStr r) \<Longrightarrow> \<exists>s. ts = JStr s"
  by (cases ts)
    (auto simp add: convert_to_local_time_def convert_to_local_time_try_def split: sum.splits)

text \<open>
  C7, as stated, fails. On the timestamp \<^verbatim>\<open>[/x]\<close>, which \<^verbatim>\<open>fromisoformat\<close> refuses,
  with the console at log level DEBUG, logging the failure (line 735) raises
  \<^verbatim>\<open>MarkupError\<close> in the handler and the function raises instead of returning the
  string. And the ordinal date \<^verbatim>\<open>2023-278T12:00:00+00:00\<close>, a timezone-aware ISO 8601
  timestamp that the library does not parse, comes back unchanged and not in the
  local display format.
\<close>

theorem convert_to_local_time_raises:
  "convert_to_local_time markup_console no_datetime (JStr ''[/x]'')
     = Inl MarkupError \<and>
   convert_to_local_time silent_console fixed_datetime (JStr ''2023-278T12:00:00+00:00'')
     = Inr (JStr ''2023-278T12:00:00+00:00'')"
  by (simp add: convert_to_local_time_def convert_to_local_time_try_def no_datetime_def
      fixed_datetime_def markup_console_def silent_console_def render_def
      unable_to_convert_def)

text \<open>
  C7, amended. On a string that \<^verbatim>\<open>datetime.fromisoformat\<close> parses and that the
  library moves to the local zone and formats, \<^verbatim>\<open>convert_to_local_time\<close> returns
  the timestamp formatted with \<^verbatim>\<open>"%Y-%m-%d %H:%M:%S.%f %Z"\<close>. On a string on which
  one of the three steps raises, once the failure is logged, it returns the string
  itself, and converting that result again gives the same string.
\<close>

theorem convert_to_local_time_fallback:
  "(fromisoformat lib s = Inr dt \<and> astimezone lib dt = Inr local_dt \<and>
      strftime lib local_dt ''%Y-%m-%d %H:%M:%S.%f %Z'' = Inr r
      \<longrightarrow> convert_to_local_time con lib (JStr s) = Inr (JStr r)) \<and>
   (convert_to_local_time_try lib (JStr s) = Inl ex \<and>
      console_debug con (unable_to_convert (JStr s) ex) = Inr ()
      \<longrightarrow> convert_to_local_time con lib (JStr s) = Inr (JStr s) \<and>
          (case convert_to_local_time con lib (JStr s) of
             Inl e' \<Rightarrow> Inl e'
           | Inr v \<Rightarrow> convert_to_local_time con lib v) = Inr (JStr s))"
proof (intro conjI impI)
  assume "fromisoformat lib s = Inr dt \<and> astimezone lib dt = Inr local_dt \<and>
      strftime lib local_dt ''%Y-%m-%d %H:%M:%S.%f %Z'' = Inr r"
  then show "convert_to_local_time con lib (JStr s) = Inr (JStr r)"
    by (simp add: convert_to_local_time_def convert_to_local_time_try_def)
next
  assume f: "convert_to_local_time_try lib (JStr s) = Inl ex \<and>
      console_debug con (unable_to_convert (JStr s) ex) = Inr ()"
  then show c: "convert_to_local_time con lib (JStr s) = Inr (JStr s)"
    by (simp add: convert_to_local_time_def)
  then show "(case convert_to_local_time con lib (JStr s) of
             Inl e' \<Rightarrow> Inl e'
           | Inr v \<Rightarrow> convert_to_local_time con lib v) = Inr (JStr s)"
    by simp
qed

theorem convert_to_local_time_fallback_witness:
  "convert_to_local_time silent_console fixed_datetime (JStr ''2023-10-05T12:00:00+00:00'')
     = Inr (JStr ''2023-10-05 12:00:00.000000 UTC'') \<and>
   convert_to_local_time_try fixed_datetime (JStr ''yesterday'')
     = Inl (ValueError ''Invalid isoformat string'') \<and>
   convert_to_local_time silent_console fixed_datetime (JStr ''yesterday'')
     = Inr (JStr ''yesterday'')"
  using convert_to_local_time_fallback
      [where lib = fixed_datetime and con = silent_console
        and s = "''2023-10-05T12:00:00+00:00''" and dt = "''2023-10-05T12:00:00+00:00''"
        and local_dt = "''2023-10-05T12:00:00+00:00''"
        and r = "''2023-10-05 12:00:00.000000 UTC''"]
    convert_to_local_time_fallback
      [where lib = fixed_datetime and con = silent_console and s = "''yesterday''"
        and ex = "ValueError ''Invalid isoformat string''"]
  by (simp add: fixed_datetime_def silent_console_def convert_to_local_time_try_def)

section \<open>Properties of the deploy milestones\<close>

lemma milestone_loop_bound:
  "fst (snd (milestone_loop con lib lower end_messages ws n i out)) \<le> i + n"
proof (induction n arbitrary: i out)
  case 0
  then show ?case by simp
next
  case (Suc n)
  have "fst (snd (milestone_loop con lib lower end_messages ws n (Suc i) out')) \<le> Suc i + n"
    for out'
    by (rule Suc.IH)
  then show ?case
    by (auto split: sum.splits prod.splits option.splits)
qed

lemma str_join_two:
  "str_join sep [a, b] = Inr line \<Longrightarrow> \<exists>x y. a = JStr x \<and> b = JStr y"
  by (cases a; cases b) simp_all

lemma milestone_frame_None:
  "milestone_frame con lib lower end_messages r = Inr (None, ended) \<Longrightarrow> ended = False"
  by (auto simp add: milestone_frame_def json_loads_def
      split: recv.splits document.splits sum.splits json.splits if_splits)

lemma milestone_frame_Some:
  assumes "milestone_frame con lib lower end_messages r = Inr (Some line, ended)"
  shows "ended = has_end_message lower end_messages r"
proof -
  from assms obtain kvs ts local_ts message
    where r: "r = Frame (Json (JObj kvs))"
      and ts: "dict_item kvs ''timestamp'' = Inr ts"
      and lt: "convert_to_local_time con lib ts = Inr local_ts"
      and m: "dict_item kvs ''message'' = Inr message"
      and j: "str_join '' | '' [local_ts, message] = Inr line"
      and fl: "\<forall>x. str_lower_method lower message = Inr x \<longrightarrow>
                ended = list_ex (\<lambda>msg. str_in msg x) end_messages"
    by (auto simp add: milestone_frame_def json_loads_def
        split: recv.splits document.splits sum.splits json.splits if_splits)
  from j obtain x msg where xy: "local_ts = JStr x" "message = JStr msg"
    using str_join_two by blast
  with lt obtain t where t: "ts = JStr t"
    using convert_to_local_time_other by blast
  from ts m t xy have "event_message r = Some msg"
    by (simp add: event_message_def r dict_item_def split: option.splits)
  moreover from fl xy have "ended = list_ex (\<lambda>p. str_in p (lower msg)) end_messages"
    by (simp add: str_lower_method_def)
  ultimately show ?thesis
    by (simp add: has_end_message_def)
qed

lemma milestone_frame_flag:
  "milestone_frame con lib lower end_messages r = Inr (l, ended) \<Longrightarrow>
   ended = has_end_message lower end_messages r \<and> (ended \<longrightarrow> l \<noteq> None)"
proof (cases l)
  case None
  assume a: "milestone_frame con lib lower end_messages r = Inr (l, ended)"
  with None have f: "ended = False"
    using milestone_frame_None by blast
  from a None have "event_message r = None \<or> \<not> has_end_message lower end_messages r"
    by (auto simp add: milestone_frame_def json_loads_def event_message_def dict_item_def
        split: recv.splits document.splits sum.splits json.splits if_splits option.splits)
  then have "\<not> has_end_message lower end_messages r"
    by (auto simp add: has_end_message_def)
  with f show ?thesis by simp
next
  case (Some line)
  assume "milestone_frame con lib lower end_messages r = Inr (l, ended)"
  with Some show ?thesis
    using milestone_frame_Some by fastforce
qed

lemma calm_frame:
  "calm con lib lower end_messages r \<Longrightarrow>
   \<exists>l. milestone_frame con lib lower end_messages r = Inr (l, False)"
proof -
  assume c: "calm con lib lower end_messages r"
  then obtain l ended where f: "milestone_frame con lib lower end_messages r = Inr (l, ended)"
    by (auto simp add: calm_def handled_def split: sum.splits)
  then have "ended = has_end_message lower end_messages r"
    using milestone_frame_flag by blast
  with c f show ?thesis
    by (simp add: calm_def)
qed

lemma end_frame:
  "handled con lib lower end_messages r \<Longrightarrow> has_end_message lower end_messages r \<Longrightarrow>
   \<exists>line. milestone_frame con lib lower end_messages r = Inr (Some line, True)"
proof -
  assume h: "handled con lib lower end_messages r"
    and e: "has_end_message lower end_messages r"
  from h obtain l ended where f: "milestone_frame con lib lower end_messages r = Inr (l, ended)"
    by (auto simp add: handled_def split: sum.splits)
  then have "ended = has_end_message lower end_messages r \<and> (ended \<longrightarrow> l \<noteq> None)"
    by (rule milestone_frame_flag)
  with e f show ?thesis
    by auto
qed

text \<open>The loop runs through calm frames: after \<open>k\<close> of them it stands at frame \<open>k\<close>.\<close>

lemma milestone_loop_skip:
  "\<forall>j<k. calm con lib lower end_messages (ws (i + j)) \<Longrightarrow> k \<le> n \<Longrightarrow>
   \<exists>out'. milestone_loop con lib lower end_messages ws n i out =
      milestone_loop con lib lower end_messages ws (n - k) (i + k) out'"
proof (induction k arbitrary: n i out)
  case 0
  then show ?case by auto
next
  case (Suc k)
  then obtain n' where n: "n = Suc n'" "k \<le> n'"
    by (cases n) simp_all
  from Suc.prems(1) have "calm con lib lower end_messages (ws (i + 0))"
    by blast
  then obtain l where f: "milestone_frame con lib lower end_messages (ws i) = Inr (l, False)"
    using calm_frame by fastforce
  then obtain out1 where s: "milestone_loop con lib lower end_messages ws (Suc n') i out =
      milestone_loop con lib lower end_messages ws n' (Suc i) out1"
    by (cases l) simp_all
  have "\<forall>j<k. calm con lib lower end_messages (ws (Suc i + j))"
    using Suc.prems(1) by (metis Suc_less_eq add_Suc_shift)
  then obtain out2 where "milestone_loop con lib lower end_messages ws n' (Suc i) out1 =
      milestone_loop con lib lower end_messages ws (n' - k) (Suc i + k) out2"
    using Suc.IH [OF _ n(2)] by blast
  with s n show ?case
    by auto
qed

text \<open>
  C6, as stated, fails. A stream with no end message whose second \<^verbatim>\<open>recv\<close> raises
  stops the loop after two calls, long before the budget of 90 is exhausted. And
  with a phrase configured with capital letters, a message that contains the very
  phrase does not end the loop, since only the message is put in lower case.
\<close>

theorem milestone_loop_stops_early:
  "milestone_loop silent_console no_datetime ascii_lower [''deploy success'']
      building_then_closed 90 0 []
     = (Aborted ConnectionClosed, 2, [''t1 | Building'']) \<and>
   milestone_loop silent_console no_datetime ascii_lower [''Deploy Success'']
      done_then_idle 3 0 []
     = (BudgetExhausted, 3, [''t1 | Deploy Success''])"
  by (simp add: eval_nat_numeral milestone_frame_def json_loads_def dict_item_def
      convert_to_local_time_def convert_to_local_time_try_def no_datetime_def
      silent_console_def str_lower_method_def ascii_lower_def char_lower_def
      building_then_closed_def done_then_idle_def event_def)

text \<open>
  C6, amended. The loop of \<^verbatim>\<open>display_deploy_milestones\<close> stops on every stream of
  frames after at most the budget of calls of \<^verbatim>\<open>recv\<close>. When the frames before
  frame \<open>k\<close> (within the budget) are calm: if frame \<open>k\<close> is handled and is an event
  whose message, put in lower case, contains one of the configured phrases, the loop
  returns at that frame; if handling frame \<open>k\<close> raises, the loop stops at that frame.
  When all the frames within the budget are calm, the loop stops when the budget is
  exhausted, having received exactly that many frames.
\<close>

theorem milestone_loop_stops:
  "fst (snd (milestone_loop con lib lower end_messages ws n 0 [])) \<le> n \<and>
   (k < n \<and> (\<forall>j<k. calm con lib lower end_messages (ws j)) \<and>
      handled con lib lower end_messages (ws k) \<and> has_end_message lower end_messages (ws k)
      \<longrightarrow> fst (milestone_loop con lib lower end_messages ws n 0 []) = EndOfDeployment \<and>
          fst (snd (milestone_loop con lib lower end_messages ws n 0 [])) = Suc k) \<and>
   (k < n \<and> (\<forall>j<k. calm con lib lower end_messages (ws j)) \<and>
      milestone_frame con lib lower end_messages (ws k) = Inl e
      \<longrightarrow> fst (milestone_loop con lib lower end_messages ws n 0 []) = Aborted e \<and>
          fst (snd (milestone_loop con lib lower end_messages ws n 0 [])) = Suc k) \<and>
   ((\<forall>j<n. calm con lib lower end_messages (ws j))
      \<longrightarrow> fst (milestone_loop con lib lower end_messages ws n 0 []) = BudgetExhausted \<and>
          fst (snd (milestone_loop con lib lower end_messages ws n 0 [])) = n)"
proof (intro conjI impI)
  show "fst (snd (milestone_loop con lib lower end_messages ws n 0 [])) \<le> n"
    using milestone_loop_bound [of con lib lower end_messages ws n 0 "[]"] by simp
next
  assume a: "k < n \<and> (\<forall>j<k. calm con lib lower end_messages (ws j)) \<and>
      handled con lib lower end_messages (ws k) \<and> has_end_message lower end_messages (ws k)"
  then obtain m where m: "n - k = Suc m"
    by (cases "n - k") simp_all
  from a obtain out' where s: "milestone_loop con lib lower end_messages ws n 0 [] =
      milestone_loop con lib lower end_messages ws (n - k) (0 + k) out'"
    using milestone_loop_skip [of k con lib lower end_messages ws 0 n "[]"] by auto
  from a obtain line where "milestone_frame con lib lower end_messages (ws k) = Inr (Some line, True)"
    using end_frame by blast
  with s m have "milestone_loop con lib lower end_messages ws n 0 [] =
      (EndOfDeployment, Suc k, out' @ [line])"
    by simp
  then show "fst (milestone_loop con lib lower end_messages ws n 0 []) = EndOfDeployment"
    and "fst (snd (milestone_loop con lib lower end_messages ws n 0 [])) = Suc k"
    by simp_all
next
  assume a: "k < n \<and> (\<forall>j<k. calm con lib lower end_messages (ws j)) \<and>
      milestone_frame con lib lower end_messages (ws k) = Inl e"
  then obtain m where m: "n - k = Suc m"
    by (cases "n - k") simp_all
  from a obtain out' where s: "milestone_loop con lib lower end_messages ws n 0 [] =
      milestone_loop con lib lower end_messages ws (n - k) (0 + k) out'"
    using milestone_loop_skip [of k con lib lower end_messages ws 0 n "[]"] by auto
  with a m have "milestone_loop con lib lower end_messages ws n 0 [] = (Aborted e, Suc k, out')"
    by simp
  then show "fst (milestone_loop con lib lower end_messages ws n 0 []) = Aborted e"
    and "fst (snd (milestone_loop con lib lower end_messages ws n 0 [])) = Suc k"
    by simp_all
next
  assume a: "\<forall>j<n. calm con lib lower end_messages (ws j)"
  then obtain out' where "milestone_loop con lib lower end_messages ws n 0 [] =
      milestone_loop con lib lower end_messages ws (n - n) (0 + n) out'"
    using milestone_loop_skip [of n con lib lower end_messages ws 0 n "[]"] by auto
  then have "milestone_loop con lib lower end_messages ws n 0 [] = (BudgetExhausted, n, out')"
    by simp
  then show "fst (milestone_loop con lib lower end_messages ws n 0 []) = BudgetExhausted"
    and "fst (snd (milestone_loop con lib lower end_messages ws n 0 [])) = n"
    by simp_all
qed

lemmas frame_defs =
  calm_def handled_def has_end_message_def event_message_def milestone_frame_def
  json_loads_def dict_item_def convert_to_local_time_def convert_to_local_time_try_def
  no_datetime_def silent_console_def str_lower_method_def ascii_lower_def char_lower_def
  event_def

lemma building_then_done_calm:
  "\<forall>j<2. calm silent_console no_datetime ascii_lower [''deploy success'']
      (building_then_done j)"
  by (simp add: less_2_cases_iff building_then_done_def frame_defs)

lemma building_then_done_end:
  "handled silent_console no_datetime ascii_lower [''deploy success''] (building_then_done 2)"
  "has_end_message ascii_lower [''deploy success''] (building_then_done 2)"
  by (simp_all add: building_then_done_def frame_defs)

lemma building_then_closed_calm:
  "\<forall>j<1. calm silent_console no_datetime ascii_lower [''deploy success'']
      (building_then_closed j)"
  by (simp add: building_then_closed_def frame_defs)

lemma building_then_closed_raises:
  "milestone_frame silent_console no_datetime ascii_lower [''deploy success'']
      (building_then_closed 1) = Inl ConnectionClosed"
  by (simp add: building_then_closed_def milestone_frame_def)

lemma still_building_calm:
  "\<forall>j<90. calm silent_console no_datetime ascii_lower [''deploy success'']
      (still_building j)"
  by (simp add: still_building_def frame_defs)

theorem milestone_loop_stops_witness:
  "fst (milestone_loop silent_console no_datetime ascii_lower [''deploy success'']
      building_then_done 90 0 []) = EndOfDeployment \<and>
   fst (snd (milestone_loop silent_console no_datetime ascii_lower [''deploy success'']
      building_then_done 90 0 [])) = 3 \<and>
   fst (milestone_loop silent_console no_datetime ascii_lower [''deploy success'']
      building_then_closed 90 0 []) = Aborted ConnectionClosed \<and>
   fst (snd (milestone_loop silent_console no_datetime ascii_lower [''deploy success'']
      building_then_closed 90 0 [])) = 2 \<and>
   fst (milestone_loop silent_console no_datetime ascii_lower [''deploy success'']
      still_building 90 0 []) = BudgetExhausted \<and>
   fst (snd (milestone_loop silent_console no_datetime ascii_lower [''deploy success'']
      still_building 90 0 [])) = 90"
  using milestone_loop_stops
      [where con = silent_console and lib = no_datetime and lower = ascii_lower
        and end_messages = "[''deploy success'']" and ws = building_then_done
        and n = 90 and k = 2]
    milestone_loop_stops
      [where con = silent_console and lib = no_datetime and lower = ascii_lower
        and end_messages = "[''deploy success'']" and ws = building_then_closed
        and n = 90 and k = 1 and e = ConnectionClosed]
    milestone_loop_stops
      [where con = silent_console and lib = no_datetime and lower = ascii_lower
        and end_messages = "[''deploy success'']" and ws = still_building and n = 90]
    building_then_done_calm building_then_done_end building_then_closed_calm
    building_then_closed_raises still_building_calm
  by simp

end
